theory Spec2Isabelle
  imports Main "HOL-Library.AList"
begin

section \<open>The SQLite adapter of the key-value store\<close>

text \<open>
  The development embeds \<^verbatim>\<open>sqlite/sqlite.go\<close>: the adapter that stores every bucket as a
  two-column table of a SQLite database and runs the operations of the store contract as SQL
  statements, alone or inside one native transaction.

  A Go byte slice is \<open>None\<close> when it is nil and \<open>Some\<close> of its bytes otherwise. \<open>str\<close> is
  the conversion \<^verbatim>\<open>string(b)\<close>, which is also what the verb \<^verbatim>\<open>%s\<close> prints, and
  \<open>bytes_Equal\<close> is \<^verbatim>\<open>bytes.Equal\<close>, for which a nil slice equals an empty one.
\<close>

type_synonym bytes = "string option"

definition str :: "bytes \<Rightarrow> string" where
  "str b = (case b of None \<Rightarrow> [] | Some s \<Rightarrow> s)"

definition bytes_Equal :: "bytes \<Rightarrow> bytes \<Rightarrow> bool" where
  "bytes_Equal a b = (str a = str b)"

subsection \<open>Errors\<close>

text \<open>
  The errors that \<^verbatim>\<open>database/sql\<close> returns: its two sentinels, and any other error of the
  package or of the SQLite driver with its text. \<open>Error\<close> is the method \<^verbatim>\<open>Error()\<close>, which
  the adapter calls on these errors only.
\<close>

datatype sql_error =
    ErrNoRows
  | ErrTxDone
  | DriverError string

fun Error :: "sql_error \<Rightarrow> string" where
  "Error ErrNoRows = ''sql: no rows in result set''"
| "Error ErrTxDone = ''sql: transaction has already been committed or rolled back''"
| "Error (DriverError m) = m"

text \<open>
  The errors that the adapter returns. \<open>Wrap\<close> and \<open>WithStack\<close> are the wrappers of
  \<^verbatim>\<open>github.com/pkg/errors\<close>, which keep the wrapped error as their cause; the message of
  \<open>Wrap\<close> is the formatted text. \<open>WrapFormat e fmt\<close> is \<^verbatim>\<open>errors.Wrapf(e, fmt)\<close> with no
  operands, as \<open>DeleteTable\<close> and \<open>List\<close> call it with the engine's text for the format: the
  format is kept as it is, since what \<^verbatim>\<open>fmt\<close> makes of it depends on the \<open>%\<close> verbs in it.

  Modelled from the spec: the package \<^verbatim>\<open>database\<close> of this repository, which declares the
  sentinels \<open>ErrNotFound\<close> and \<open>ErrOpNotSupported\<close> and the predicates \<open>IsErrNotFound\<close> and
  \<open>IsErrOpNotSupported\<close>, is not among the sources. The spec asks for exactly two predicates
  that are visible to callers, "is this a not-found error" and "is this an unsupported-operation
  error"; they are modelled as: the root cause of the error is the sentinel.
\<close>

datatype error =
    ErrNotFound
  | ErrOpNotSupported
  | Sql sql_error
  | Wrap error string
  | WrapFormat error string
  | WithStack error

fun Cause :: "error \<Rightarrow> error" where
  "Cause (Wrap e m) = Cause e"
| "Cause (WrapFormat e m) = Cause e"
| "Cause (WithStack e) = Cause e"
| "Cause e = e"

fun errors_Is :: "error \<Rightarrow> error \<Rightarrow> bool" where
  "errors_Is (Wrap e m) t = (Wrap e m = t \<or> errors_Is e t)"
| "errors_Is (WrapFormat e m) t = (WrapFormat e m = t \<or> errors_Is e t)"
| "errors_Is (WithStack e) t = (WithStack e = t \<or> errors_Is e t)"
| "errors_Is e t = (e = t)"

definition IsErrNotFound :: "error \<Rightarrow> bool" where
  "IsErrNotFound e = (Cause e = ErrNotFound)"

definition IsErrOpNotSupported :: "error \<Rightarrow> bool" where
  "IsErrOpNotSupported e = (Cause e = ErrOpNotSupported)"

text \<open>\<^verbatim>\<open>errors.Wrapf\<close> and \<^verbatim>\<open>errors.WithStack\<close> of a possibly nil error: nil stays nil.\<close>

definition errors_Wrapf :: "error option \<Rightarrow> string \<Rightarrow> error option" where
  "errors_Wrapf err m = (case err of None \<Rightarrow> None | Some e \<Rightarrow> Some (Wrap e m))"

definition errors_WithStack :: "error option \<Rightarrow> error option" where
  "errors_WithStack err = (case err of None \<Rightarrow> None | Some e \<Rightarrow> Some (WithStack e))"

definition HasPrefix :: "string \<Rightarrow> string \<Rightarrow> bool" where
  "HasPrefix s p = (take (length p) s = p)"

subsection \<open>The statements of the adapter\<close>

text \<open>
  The query builders splice the bucket's name between backticks into the text of the statement.
  \<open>listQry\<close> is the text that \<open>List\<close> formats in place.
\<close>

definition createTableQry :: "bytes \<Rightarrow> string" where
  "createTableQry bucket =
     ''CREATE TABLE IF NOT EXISTS `'' @ str bucket @ ''`(nkey BLOB(255) PRIMARY KEY, nvalue BLOB);''"

definition deleteTableQry :: "bytes \<Rightarrow> string" where
  "deleteTableQry bucket = ''DROP TABLE `'' @ str bucket @ ''`''"

definition getQry :: "bytes \<Rightarrow> string" where
  "getQry bucket = ''SELECT nvalue FROM `'' @ str bucket @ ''` WHERE nkey = ?''"

definition delQry :: "bytes \<Rightarrow> string" where
  "delQry bucket = ''DELETE FROM `'' @ str bucket @ ''` WHERE nkey = ?''"

definition insertUpdateQry :: "bytes \<Rightarrow> string" where
  "insertUpdateQry bucket =
     ''INSERT INTO `'' @ str bucket
       @ ''`(nkey, nvalue) VALUES(?,?) ON CONFLICT(nkey) DO UPDATE SET nvalue = ?''"

definition getQryForUpdate :: "bytes \<Rightarrow> string" where
  "getQryForUpdate bucket = ''SELECT nvalue FROM `'' @ str bucket @ ''` WHERE nkey = ?''"

definition listQry :: "bytes \<Rightarrow> string" where
  "listQry bucket = ''SELECT * FROM `'' @ str bucket @ ''`''"

subsection \<open>The SQL engine: reading a statement\<close>

text \<open>
  The engine is the adapter's environment. It reads the six statements above. A name between
  backticks ends at the first backtick that is not doubled, and a doubled backtick stands for
  one; the text of the statement ends at a NUL byte. \<open>ident\<close> reads a name from the text after
  the opening backtick and gives the name with the text that follows the closing backtick;
  it gives \<open>None\<close> when the text ends before the name does.
\<close>

definition bt :: char where
  "bt = CHR 0x60"

definition NUL :: char where
  "NUL = CHR 0x00"

definition push :: "char \<Rightarrow> (string \<times> string) option \<Rightarrow> (string \<times> string) option" where
  "push c r = (case r of None \<Rightarrow> None | Some (n, rest) \<Rightarrow> Some (c # n, rest))"

fun ident :: "string \<Rightarrow> (string \<times> string) option" where
  "ident [] = None"
| "ident [c] = (if c = bt then Some ([], []) else None)"
| "ident (c # d # ds) =
     (if c = bt then (if d = bt then push bt (ident ds) else Some ([], d # ds))
      else if c = NUL then None
      else push c (ident (d # ds)))"

text \<open>
  Table names are compared without regard to the case of ASCII letters, so the database is
  keyed by the name in lower case. The names that start with \<open>sqlite_\<close> belong to the engine.
\<close>

definition lower :: "char \<Rightarrow> char" where
  "lower c =
     (case map_of (zip ''ABCDEFGHIJKLMNOPQRSTUVWXYZ'' ''abcdefghijklmnopqrstuvwxyz'') c of
        None \<Rightarrow> c
      | Some d \<Rightarrow> d)"

definition key_of :: "string \<Rightarrow> string" where
  "key_of n = map lower n"

definition reserved :: "string \<Rightarrow> bool" where
  "reserved n = HasPrefix (key_of n) ''sqlite_''"

text \<open>
  \<open>table_name\<close> is the name of the table that the engine reads when a bucket's name is
  spliced between backticks: \<open>None\<close> when the name leaves the quotes (a backtick that is not
  doubled), holds a NUL byte, or is one of the engine's own.
\<close>

definition table_name :: "string \<Rightarrow> string option" where
  "table_name name =
     (case ident (name @ [bt]) of
        None \<Rightarrow> None
      | Some (n, rest) \<Rightarrow> if rest = [] \<and> \<not> reserved n then Some n else None)"

datatype stmt =
    CreateTableQ string
  | DropTableQ string
  | SelectValueQ string
  | DeleteRowQ string
  | InsertUpdateQ string
  | SelectAllQ string

fun strip_prefix :: "string \<Rightarrow> string \<Rightarrow> string option" where
  "strip_prefix [] s = Some s"
| "strip_prefix (c # p) [] = None"
| "strip_prefix (c # p) (d # s) = (if c = d then strip_prefix p s else None)"

text \<open>\<open>quoted pre post sql\<close>: the name \<open>n\<close> when the text is \<open>pre\<close>, the quoted \<open>n\<close>, \<open>post\<close>.\<close>

definition quoted :: "string \<Rightarrow> string \<Rightarrow> string \<Rightarrow> string option" where
  "quoted pre post sql =
     (case strip_prefix pre sql of
        None \<Rightarrow> None
      | Some r \<Rightarrow>
          (case ident r of
             None \<Rightarrow> None
           | Some (n, rest) \<Rightarrow> if rest = post \<and> \<not> reserved n then Some n else None))"

definition parse :: "string \<Rightarrow> stmt option" where
  "parse sql =
     (case quoted ''CREATE TABLE IF NOT EXISTS `''
             ''(nkey BLOB(255) PRIMARY KEY, nvalue BLOB);'' sql of
        Some n \<Rightarrow> Some (CreateTableQ n)
      | None \<Rightarrow>
     (case quoted ''DROP TABLE `'' [] sql of
        Some n \<Rightarrow> Some (DropTableQ n)
      | None \<Rightarrow>
     (case quoted ''SELECT nvalue FROM `'' '' WHERE nkey = ?'' sql of
        Some n \<Rightarrow> Some (SelectValueQ n)
      | None \<Rightarrow>
     (case quoted ''DELETE FROM `'' '' WHERE nkey = ?'' sql of
        Some n \<Rightarrow> Some (DeleteRowQ n)
      | None \<Rightarrow>
     (case quoted ''INSERT INTO `''
             ''(nkey, nvalue) VALUES(?,?) ON CONFLICT(nkey) DO UPDATE SET nvalue = ?'' sql of
        Some n \<Rightarrow> Some (InsertUpdateQ n)
      | None \<Rightarrow>
     (case quoted ''SELECT * FROM `'' [] sql of
        Some n \<Rightarrow> Some (SelectAllQ n)
      | None \<Rightarrow> None))))))"

subsection \<open>The SQL engine: running a statement\<close>

text \<open>
  A column holds what the driver binds for a byte slice: SQL NULL for a nil slice, the bytes as
  a blob otherwise; so a column value is a \<open>bytes\<close>, with \<open>None\<close> for NULL. A table is the
  list of its rows (nkey, nvalue). The primary key is unique among the keys that are not NULL,
  and NULL is allowed as a key any number of times, since NULL equals nothing: \<open>nkey = ?\<close>
  with NULL finds no row, and \<open>ON CONFLICT(nkey)\<close> never meets one.
\<close>

type_synonym table = "(bytes \<times> bytes) list"
type_synonym store = "string \<rightharpoonup> table"

definition lookup_row :: "table \<Rightarrow> bytes \<Rightarrow> bytes option" where
  "lookup_row t k = (case k of None \<Rightarrow> None | Some b \<Rightarrow> map_of t k)"

definition delete_row :: "table \<Rightarrow> bytes \<Rightarrow> table" where
  "delete_row t k = (case k of None \<Rightarrow> t | Some b \<Rightarrow> AList.delete k t)"

text \<open>
  \<open>INSERT ... VALUES(?,?) ON CONFLICT(nkey) DO UPDATE SET nvalue = ?\<close>: the second argument
  is inserted, the third replaces the value of the row that has the key.
\<close>

definition insert_update :: "table \<Rightarrow> bytes \<Rightarrow> bytes \<Rightarrow> bytes \<Rightarrow> table" where
  "insert_update t k v v' =
     (case lookup_row t k of None \<Rightarrow> t @ [(k, v)] | Some old \<Rightarrow> AList.update k v' t)"

text \<open>
  What the engine answers on a statement that names a missing table, and on a statement run
  with the wrong number of arguments (which the adapter never does).
\<close>

definition no_such_table :: "string \<Rightarrow> sql_error" where
  "no_such_table n = DriverError (''no such table: '' @ n)"

definition bad_arguments :: sql_error where
  "bad_arguments = DriverError ''sql: wrong number of arguments''"

fun run_exec :: "store \<Rightarrow> stmt \<Rightarrow> bytes list \<Rightarrow> sql_error + store" where
  "run_exec s (CreateTableQ n) [] =
     (case s (key_of n) of None \<Rightarrow> Inr (s(key_of n \<mapsto> [])) | Some t \<Rightarrow> Inr s)"
| "run_exec s (DropTableQ n) [] =
     (case s (key_of n) of
        None \<Rightarrow> Inl (no_such_table n)
      | Some t \<Rightarrow> Inr (s(key_of n := None)))"
| "run_exec s (DeleteRowQ n) [k] =
     (case s (key_of n) of
        None \<Rightarrow> Inl (no_such_table n)
      | Some t \<Rightarrow> Inr (s(key_of n \<mapsto> delete_row t k)))"
| "run_exec s (InsertUpdateQ n) [k, v, v'] =
     (case s (key_of n) of
        None \<Rightarrow> Inl (no_such_table n)
      | Some t \<Rightarrow> Inr (s(key_of n \<mapsto> insert_update t k v v')))"
| "run_exec s q args = Inl bad_arguments"

text \<open>Statements that read: the rows of the answer, each the list of its columns.\<close>

fun run_query :: "store \<Rightarrow> stmt \<Rightarrow> bytes list \<Rightarrow> sql_error + bytes list list" where
  "run_query s (SelectValueQ n) [k] =
     (case s (key_of n) of
        None \<Rightarrow> Inl (no_such_table n)
      | Some t \<Rightarrow> Inr (case lookup_row t k of None \<Rightarrow> [] | Some v \<Rightarrow> [[v]]))"
| "run_query s (SelectAllQ n) [] =
     (case s (key_of n) of
        None \<Rightarrow> Inl (no_such_table n)
      | Some t \<Rightarrow> Inr (map (\<lambda>(k, v). [k, v]) t))"
| "run_query s q args = Inl bad_arguments"

text \<open>
  Any call of the engine can also fail for a reason of its own (I/O, a lock, a lost
  connection): \<open>faults\<close> says which calls do, and with which error text. A text that is none
  of the six statements on a table of the caller's (the bucket's name has left the quotes, or
  is one of the engine's own) is not followed further: the engine answers it with an error,
  whose text \<open>other_sql\<close> gives. \<open>no_faults\<close> is the engine that fails for no reason of its
  own.
\<close>

record faults =
  begin_fault :: "string option"
  commit_fault :: "string option"
  rollback_fault :: "string option"
  stmt_fault :: "string \<Rightarrow> bytes list \<Rightarrow> string option"
  other_sql :: "string \<Rightarrow> string"

definition no_faults :: faults where
  "no_faults = \<lparr>begin_fault = None, commit_fault = None, rollback_fault = None,
                stmt_fault = (\<lambda>sql args. None), other_sql = (\<lambda>sql. ''syntax error'')\<rparr>"

definition engine_exec :: "faults \<Rightarrow> store \<Rightarrow> string \<Rightarrow> bytes list \<Rightarrow> sql_error + store" where
  "engine_exec f s sql args =
     (case stmt_fault f sql args of
        Some m \<Rightarrow> Inl (DriverError m)
      | None \<Rightarrow>
          (case parse sql of
             None \<Rightarrow> Inl (DriverError (other_sql f sql))
           | Some q \<Rightarrow> run_exec s q args))"

definition engine_query ::
  "faults \<Rightarrow> store \<Rightarrow> string \<Rightarrow> bytes list \<Rightarrow> sql_error + bytes list list" where
  "engine_query f s sql args =
     (case stmt_fault f sql args of
        Some m \<Rightarrow> Inl (DriverError m)
      | None \<Rightarrow>
          (case parse sql of
             None \<Rightarrow> Inl (DriverError (other_sql f sql))
           | Some q \<Rightarrow> run_query s q args))"

subsection \<open>The database handle and its native transaction\<close>

text \<open>
  \<open>tables\<close> is the committed database, which statements outside a transaction read and write
  and which every other reader sees. \<open>tx_tables\<close> is the view of the native transaction that
  the adapter began last, and \<open>tx_status\<close> its state: a transaction whose commit or rollback
  failed is \<open>Indeterminate\<close>, and every call on a transaction that is not \<open>Active\<close> fails
  with \<open>ErrTxDone\<close>.
\<close>

datatype tx_status = Idle | Active | Committed | RolledBack | Indeterminate

record sqlDB =
  tables :: store
  tx_tables :: store
  tx_status :: tx_status

definition db_Exec :: "faults \<Rightarrow> sqlDB \<Rightarrow> string \<Rightarrow> bytes list \<Rightarrow> sql_error option \<times> sqlDB" where
  "db_Exec f db sql args =
     (case engine_exec f (tables db) sql args of
        Inl e \<Rightarrow> (Some e, db)
      | Inr s \<Rightarrow> (None, db\<lparr>tables := s\<rparr>))"

definition db_Query ::
  "faults \<Rightarrow> sqlDB \<Rightarrow> string \<Rightarrow> bytes list \<Rightarrow> sql_error + bytes list list" where
  "db_Query f db sql args = engine_query f (tables db) sql args"

definition db_Begin :: "faults \<Rightarrow> sqlDB \<Rightarrow> sql_error option \<times> sqlDB" where
  "db_Begin f db =
     (case begin_fault f of
        Some m \<Rightarrow> (Some (DriverError m), db)
      | None \<Rightarrow> (None, db\<lparr>tx_tables := tables db, tx_status := Active\<rparr>))"

definition tx_Exec :: "faults \<Rightarrow> sqlDB \<Rightarrow> string \<Rightarrow> bytes list \<Rightarrow> sql_error option \<times> sqlDB" where
  "tx_Exec f db sql args =
     (if tx_status db \<noteq> Active then (Some ErrTxDone, db)
      else case engine_exec f (tx_tables db) sql args of
        Inl e \<Rightarrow> (Some e, db)
      | Inr s \<Rightarrow> (None, db\<lparr>tx_tables := s\<rparr>))"

definition tx_Query ::
  "faults \<Rightarrow> sqlDB \<Rightarrow> string \<Rightarrow> bytes list \<Rightarrow> sql_error + bytes list list" where
  "tx_Query f db sql args =
     (if tx_status db \<noteq> Active then Inl ErrTxDone
      else engine_query f (tx_tables db) sql args)"

definition tx_Commit :: "faults \<Rightarrow> sqlDB \<Rightarrow> sql_error option \<times> sqlDB" where
  "tx_Commit f db =
     (if tx_status db \<noteq> Active then (Some ErrTxDone, db)
      else case commit_fault f of
        Some m \<Rightarrow> (Some (DriverError m), db\<lparr>tx_status := Indeterminate\<rparr>)
      | None \<Rightarrow> (None, db\<lparr>tables := tx_tables db, tx_status := Committed\<rparr>))"

definition tx_Rollback :: "faults \<Rightarrow> sqlDB \<Rightarrow> sql_error option \<times> sqlDB" where
  "tx_Rollback f db =
     (if tx_status db \<noteq> Active then (Some ErrTxDone, db)
      else case rollback_fault f of
        Some m \<Rightarrow> (Some (DriverError m), db\<lparr>tx_status := Indeterminate\<rparr>)
      | None \<Rightarrow> (None, db\<lparr>tx_status := RolledBack\<rparr>))"

subsection \<open>Scanning a row\<close>

text \<open>
  \<^verbatim>\<open>Scan\<close> converts a column to its destination. Into a \<^verbatim>\<open>[]byte\<close> NULL becomes nil
  and a blob its bytes; into a \<^verbatim>\<open>string\<close> a blob becomes its bytes and NULL is an error,
  which names the column by its index and name.
\<close>

definition null_to_string :: "string \<Rightarrow> string \<Rightarrow> sql_error" where
  \<open>null_to_string index column =
     DriverError (''sql: Scan error on column index '' @ index @ '', name "'' @ column
                    @ ''": converting NULL to string is unsupported'')\<close>

definition convert_string :: "string \<Rightarrow> string \<Rightarrow> bytes \<Rightarrow> sql_error + string" where
  "convert_string index column v =
     (case v of None \<Rightarrow> Inl (null_to_string index column) | Some s \<Rightarrow> Inr s)"

text \<open>
  \<^verbatim>\<open>QueryRow(...).Scan(&v)\<close> of the column \<open>nvalue\<close>: the first row's only column,
  \<open>ErrNoRows\<close> when the answer is empty. \<open>Scan_bytes\<close> has a \<^verbatim>\<open>[]byte\<close> for its
  destination, \<open>Scan_string\<close> a \<^verbatim>\<open>string\<close>. (The last case is a row of the other statement
  that reads, which has two columns.)
\<close>

definition Scan_bytes :: "sql_error + bytes list list \<Rightarrow> sql_error + bytes" where
  "Scan_bytes r =
     (case r of
        Inl e \<Rightarrow> Inl e
      | Inr [] \<Rightarrow> Inl ErrNoRows
      | Inr ([v] # rows) \<Rightarrow> Inr v
      | Inr (cols # rows) \<Rightarrow>
          Inl (DriverError ''sql: expected 2 destination arguments in Scan, not 1''))"

definition Scan_string :: "sql_error + bytes list list \<Rightarrow> sql_error + string" where
  "Scan_string r =
     (case r of
        Inl e \<Rightarrow> Inl e
      | Inr [] \<Rightarrow> Inl ErrNoRows
      | Inr ([v] # rows) \<Rightarrow> convert_string ''0'' ''nvalue'' v
      | Inr (cols # rows) \<Rightarrow>
          Inl (DriverError ''sql: expected 2 destination arguments in Scan, not 1''))"

text \<open>\<^verbatim>\<open>rows.Scan(&key, &value)\<close> of a row of \<open>SELECT *\<close>, both destinations strings.\<close>

definition Scan2 :: "bytes list \<Rightarrow> sql_error + string \<times> string" where
  "Scan2 cols =
     (case cols of
        [k, v] \<Rightarrow>
          (case convert_string ''0'' ''nkey'' k of
             Inl e \<Rightarrow> Inl e
           | Inr key \<Rightarrow>
               (case convert_string ''1'' ''nvalue'' v of
                  Inl e \<Rightarrow> Inl e
                | Inr val \<Rightarrow> Inr (key, val)))
      | _ \<Rightarrow> Inl (DriverError ''sql: expected 1 destination arguments in Scan, not 2''))"

subsection \<open>Operations and transactions of the store contract\<close>

text \<open>
  Modelled from the spec: the types \<^verbatim>\<open>database.TxCmd\<close>, \<^verbatim>\<open>database.Operation\<close>,
  \<^verbatim>\<open>database.Tx\<close> and \<^verbatim>\<open>database.Entry\<close> are declared in the package that is not among
  the sources. An Operation has a Command (one of CreateTable, DeleteTable, Get, Set, Delete,
  CmpAndSwap, CmpOrRollback), a Bucket, Key, Value and CmpValue, and the two output fields
  Result and Swapped; a Transaction is an ordered sequence of Operations; an Entry is a
  (Bucket, Key, Value) triple. The command is an integer type in Go, so \<open>OtherCmd\<close> stands
  for the values outside the defined set.
\<close>

datatype TxCmd =
    CreateTable
  | DeleteTable
  | Get
  | Set
  | Delete
  | CmpAndSwap
  | CmpOrRollback
  | OtherCmd int

record Operation =
  Cmd :: TxCmd
  Bucket :: bytes
  Key :: bytes
  Value :: bytes
  CmpValue :: bytes
  Result :: bytes
  Swapped :: bool

record Tx =
  Operations :: "Operation list"

datatype Entry = Entry bytes bytes bytes

subsection \<open>The adapter\<close>

text \<open>
  Every method takes the engine's faults and the database and returns what the Go method
  returns together with the database after the call. A Go \<^verbatim>\<open>error\<close> result is an
  \<open>error option\<close>, \<open>None\<close> for nil.
\<close>

definition cmpAndSwap ::
  "faults \<Rightarrow> sqlDB \<Rightarrow> bytes \<Rightarrow> bytes \<Rightarrow> bytes \<Rightarrow> bytes \<Rightarrow> (bytes \<times> bool \<times> error option) \<times> sqlDB" where
  "cmpAndSwap f db bucket key oldValue newValue =
     (let (current, err) =
            (case Scan_bytes (tx_Query f db (getQryForUpdate bucket) [key]) of
               Inl e \<Rightarrow> (None, Some (Sql e))
             | Inr v \<Rightarrow> (v, None))
      in if (case err of None \<Rightarrow> False | Some e \<Rightarrow> \<not> errors_Is e (Sql ErrNoRows))
         then ((None, False, err), db)
         else if \<not> bytes_Equal current oldValue then ((current, False, None), db)
         else (case tx_Exec f db (insertUpdateQry bucket) [key, newValue, newValue] of
                 (Some e, db') \<Rightarrow>
                   ((None, False,
                     Some (Wrap (Sql e) (''failed to set '' @ str bucket @ ''/'' @ str key))), db')
               | (None, db') \<Rightarrow> ((newValue, True, None), db')))"

definition DB_CmpAndSwap ::
  "faults \<Rightarrow> sqlDB \<Rightarrow> bytes \<Rightarrow> bytes \<Rightarrow> bytes \<Rightarrow> bytes \<Rightarrow> (bytes \<times> bool \<times> error option) \<times> sqlDB" where
  "DB_CmpAndSwap f db bucket key oldValue newValue =
     (case db_Begin f db of
        (Some err, db0) \<Rightarrow> ((None, False, Some (WithStack (Sql err))), db0)
      | (None, db0) \<Rightarrow>
          (case cmpAndSwap f db0 bucket key oldValue newValue of
             ((val, swapped, Some err), db1) \<Rightarrow>
               (case tx_Rollback f db1 of
                  (Some err', db2) \<Rightarrow>
                    ((None, False,
                      Some (Wrap (Sql err')
                              (''failed to execute CmpAndSwap transaction on '' @ str bucket
                                @ ''/'' @ str key @ '' and failed to rollback transaction''))),
                     db2)
                | (None, db2) \<Rightarrow> ((None, False, Some err), db2))
           | ((val, swapped, None), db1) \<Rightarrow>
               if swapped then
                 (case tx_Commit f db1 of
                    (Some err', db2) \<Rightarrow>
                      ((None, False,
                        Some (Wrap (Sql err') ''failed to commit MySQL transaction'')), db2)
                  | (None, db2) \<Rightarrow> ((val, swapped, None), db2))
               else
                 (case tx_Rollback f db1 of
                    (Some err', db2) \<Rightarrow>
                      ((None, False,
                        Some (Wrap (Sql err')
                                (''failed to rollback read-only CmpAndSwap transaction on ''
                                  @ str bucket @ ''/'' @ str key))), db2)
                  | (None, db2) \<Rightarrow> ((val, swapped, None), db2))))"

definition DB_CreateTable :: "faults \<Rightarrow> sqlDB \<Rightarrow> bytes \<Rightarrow> error option \<times> sqlDB" where
  "DB_CreateTable f db bucket =
     (case db_Exec f db (createTableQry bucket) [] of
        (Some err, db') \<Rightarrow> (Some (Wrap (Sql err) (''failed to create table '' @ str bucket)), db')
      | (None, db') \<Rightarrow> (None, db'))"

definition DB_Del :: "faults \<Rightarrow> sqlDB \<Rightarrow> bytes \<Rightarrow> bytes \<Rightarrow> error option \<times> sqlDB" where
  "DB_Del f db bucket key =
     (case db_Exec f db (delQry bucket) [key] of
        (err, db') \<Rightarrow>
          (errors_Wrapf (map_option Sql err)
             (''failed to delete '' @ str bucket @ ''/'' @ str key), db'))"

definition DB_DeleteTable :: "faults \<Rightarrow> sqlDB \<Rightarrow> bytes \<Rightarrow> error option \<times> sqlDB" where
  "DB_DeleteTable f db bucket =
     (case db_Exec f db (deleteTableQry bucket) [] of
        (Some err, db') \<Rightarrow>
          (let estr = Error err
           in if HasPrefix estr ''no such table'' then (Some (WrapFormat ErrNotFound estr), db')
              else (Some (Wrap (Sql err) (''failed to delete table '' @ str bucket)), db'))
      | (None, db') \<Rightarrow> (None, db'))"

definition DB_Get :: "faults \<Rightarrow> sqlDB \<Rightarrow> bytes \<Rightarrow> bytes \<Rightarrow> error + bytes" where
  "DB_Get f db bucket key =
     (case Scan_string (db_Query f db (getQry bucket) [key]) of
        Inl err \<Rightarrow>
          if err = ErrNoRows
          then Inl (Wrap ErrNotFound (str bucket @ ''/'' @ str key @ '' not found''))
          else Inl (Wrap (Sql err) (''failed to get '' @ str bucket @ ''/'' @ str key))
      | Inr val \<Rightarrow> Inr (Some val))"

text \<open>
  The loop of \<open>List\<close> over the rows of the answer: the first row that does not scan ends
  it. (An error of the iteration itself, \<^verbatim>\<open>rows.Err()\<close>, is not among the faults.)
\<close>

fun list_rows :: "bytes \<Rightarrow> bytes list list \<Rightarrow> Entry list \<Rightarrow> error + Entry list" where
  "list_rows bucket [] entries = Inr entries"
| "list_rows bucket (cols # rows) entries =
     (case Scan2 cols of
        Inl err \<Rightarrow> Inl (Wrap (Sql err) ''error getting key and value from row'')
      | Inr (key, val) \<Rightarrow>
          list_rows bucket rows (entries @ [Entry bucket (Some key) (Some val)]))"

definition DB_List :: "faults \<Rightarrow> sqlDB \<Rightarrow> bytes \<Rightarrow> error + Entry list" where
  "DB_List f db bucket =
     (case db_Query f db (listQry bucket) [] of
        Inl err \<Rightarrow>
          (let estr = Error err
           in if HasPrefix estr ''no such table'' then Inl (WrapFormat ErrNotFound estr)
              else Inl (Wrap (Sql err) (''error querying table '' @ str bucket)))
      | Inr rows \<Rightarrow> list_rows bucket rows [])"

definition DB_Set :: "faults \<Rightarrow> sqlDB \<Rightarrow> bytes \<Rightarrow> bytes \<Rightarrow> bytes \<Rightarrow> error option \<times> sqlDB" where
  "DB_Set f db bucket key val =
     (case db_Exec f db (insertUpdateQry bucket) [key, val, val] of
        (Some err, db') \<Rightarrow>
          (Some (Wrap (Sql err) (''failed to set '' @ str bucket @ ''/'' @ str key)), db')
      | (None, db') \<Rightarrow> (None, db'))"

text \<open>The closure \<open>rollback\<close> of \<open>Update\<close>, and \<open>return rollback(err)\<close> in the loop.\<close>

definition rollback :: "faults \<Rightarrow> sqlDB \<Rightarrow> error \<Rightarrow> error \<times> sqlDB" where
  "rollback f db err =
     (case tx_Rollback f db of
        (Some rollbackErr, db') \<Rightarrow> (Wrap err ''UPDATE failed, unable to rollback transaction'', db')
      | (None, db') \<Rightarrow> (Wrap err ''UPDATE failed'', db'))"

definition return_rollback ::
  "faults \<Rightarrow> sqlDB \<Rightarrow> Operation \<Rightarrow> error \<Rightarrow> error option \<times> Operation \<times> sqlDB" where
  "return_rollback f db q err = (case rollback f db err of (e, db') \<Rightarrow> (Some e, q, db'))"

text \<open>
  The body of the loop of \<open>Update\<close> on one operation \<open>q\<close>: the error with which \<open>Update\<close>
  returns from inside the loop (\<open>None\<close> when the loop goes on), the operation with its output
  fields as the body leaves them, and the database.
\<close>

definition update_op :: "faults \<Rightarrow> sqlDB \<Rightarrow> Operation \<Rightarrow> error option \<times> Operation \<times> sqlDB" where
  "update_op f db q =
     (case Cmd q of
        CreateTable \<Rightarrow>
          (case tx_Exec f db (createTableQry (Bucket q)) [] of
             (Some err, db') \<Rightarrow>
               return_rollback f db' q
                 (Wrap (Sql err) (''failed to create table '' @ str (Bucket q)))
           | (None, db') \<Rightarrow> (None, q, db'))
      | DeleteTable \<Rightarrow>
          (case tx_Exec f db (deleteTableQry (Bucket q)) [] of
             (Some err, db') \<Rightarrow>
               (let estr = Error err
                in if HasPrefix (Error err) ''no such table''
                   then (Some (WrapFormat ErrNotFound estr), q, db')
                   else (Some (Wrap (Sql err) (''failed to delete table '' @ str (Bucket q))),
                         q, db'))
           | (None, db') \<Rightarrow> (None, q, db'))
      | Get \<Rightarrow>
          (case Scan_string (tx_Query f db (getQry (Bucket q)) [Key q]) of
             Inl err \<Rightarrow>
               if err = ErrNoRows
               then return_rollback f db q
                      (Wrap ErrNotFound (str (Bucket q) @ ''/'' @ str (Key q) @ '' not found''))
               else return_rollback f db q
                      (Wrap (Sql err) (''failed to get '' @ str (Bucket q) @ ''/'' @ str (Key q)))
           | Inr val \<Rightarrow> (None, q\<lparr>Result := Some val\<rparr>, db))
      | Set \<Rightarrow>
          (case tx_Exec f db (insertUpdateQry (Bucket q)) [Key q, Value q, Value q] of
             (Some err, db') \<Rightarrow>
               return_rollback f db' q
                 (Wrap (Sql err) (''failed to set '' @ str (Bucket q) @ ''/'' @ str (Key q)))
           | (None, db') \<Rightarrow> (None, q, db'))
      | Delete \<Rightarrow>
          (case tx_Exec f db (delQry (Bucket q)) [Key q] of
             (Some err, db') \<Rightarrow>
               return_rollback f db' q
                 (Wrap (Sql err) (''failed to delete '' @ str (Bucket q) @ ''/'' @ str (Key q)))
           | (None, db') \<Rightarrow> (None, q, db'))
      | CmpAndSwap \<Rightarrow>
          (case cmpAndSwap f db (Bucket q) (Key q) (CmpValue q) (Value q) of
             ((res, swapped, err), db') \<Rightarrow>
               (let q' = q\<lparr>Result := res, Swapped := swapped\<rparr>
                in case err of
                     Some e \<Rightarrow>
                       return_rollback f db' q'
                         (Wrap e (''failed to load-or-store '' @ str (Bucket q) @ ''/''
                                    @ str (Key q)))
                   | None \<Rightarrow> (None, q', db')))
      | CmpOrRollback \<Rightarrow> (Some ErrOpNotSupported, q, db)
      | OtherCmd n \<Rightarrow> (Some ErrOpNotSupported, q, db))"

text \<open>
  The loop \<open>for _, q := range tx.Operations\<close>. The operations are pointers that the body
  writes through, so the caller sees the output fields of every operation that was run, also
  when \<open>Update\<close> returns an error; the operations after the failing one are untouched.
\<close>

fun update_ops ::
  "faults \<Rightarrow> sqlDB \<Rightarrow> Operation list \<Rightarrow> error option \<times> Operation list \<times> sqlDB" where
  "update_ops f db [] = (None, [], db)"
| "update_ops f db (q # qs) =
     (case update_op f db q of
        (Some e, q', db') \<Rightarrow> (Some e, q' # qs, db')
      | (None, q', db') \<Rightarrow>
          (case update_ops f db' qs of (e, qs', db'') \<Rightarrow> (e, q' # qs', db'')))"

definition DB_Update :: "faults \<Rightarrow> sqlDB \<Rightarrow> Tx \<Rightarrow> error option \<times> Tx \<times> sqlDB" where
  "DB_Update f db tx =
     (case db_Begin f db of
        (Some err, db0) \<Rightarrow> (Some (WithStack (Sql err)), tx, db0)
      | (None, db0) \<Rightarrow>
          (case update_ops f db0 (Operations tx) of
             (Some e, ops, db1) \<Rightarrow> (Some e, tx\<lparr>Operations := ops\<rparr>, db1)
           | (None, ops, db1) \<Rightarrow>
               (case tx_Commit f db1 of
                  (cerr, db2) \<Rightarrow>
                    (case errors_WithStack (map_option Sql cerr) of
                       Some err \<Rightarrow>
                         (case rollback f db2 err of
                            (e, db3) \<Rightarrow> (Some e, tx\<lparr>Operations := ops\<rparr>, db3))
                     | None \<Rightarrow> (None, tx\<lparr>Operations := ops\<rparr>, db2)))))"

subsection \<open>Example databases\<close>

text \<open>
  The scenario of the spec: a database whose only bucket is \<open>users\<close>, where \<open>alice\<close> has the
  value \<open>2\<close>, and the same database before any key was set.
\<close>

definition users_db :: sqlDB where
  "users_db = \<lparr>tables = [''users'' \<mapsto> [(Some ''alice'', Some ''2'')]], tx_tables = Map.empty,
               tx_status = Idle\<rparr>"

definition empty_users_db :: sqlDB where
  "empty_users_db = \<lparr>tables = [''users'' \<mapsto> []], tx_tables = Map.empty, tx_status = Idle\<rparr>"

text \<open>An engine whose only fault is that it cannot roll back.\<close>

definition rollback_fails :: faults where
  "rollback_fails = no_faults\<lparr>rollback_fault := Some ''disk I/O error''\<rparr>"


text \<open>Operations as a caller builds them, with the output fields still zero.\<close>

definition set_alice :: Operation where
  "set_alice = \<lparr>Cmd = Set, Bucket = Some ''users'', Key = Some ''alice'', Value = Some ''1'',
                 CmpValue = None, Result = None, Swapped = False\<rparr>"

definition set_bob :: Operation where
  "set_bob = \<lparr>Cmd = Set, Bucket = Some ''users'', Key = Some ''bob'', Value = Some ''8'',
               CmpValue = None, Result = None, Swapped = False\<rparr>"

definition get_bob :: Operation where
  "get_bob = \<lparr>Cmd = Get, Bucket = Some ''users'', Key = Some ''bob'', Value = None,
               CmpValue = None, Result = None, Swapped = False\<rparr>"

definition get_ghost :: Operation where
  "get_ghost = \<lparr>Cmd = Get, Bucket = Some ''ghosts'', Key = Some ''alice'', Value = None,
                 CmpValue = None, Result = None, Swapped = False\<rparr>"

definition cas_alice :: Operation where
  "cas_alice = \<lparr>Cmd = CmpAndSwap, Bucket = Some ''users'', Key = Some ''alice'',
                 Value = Some ''3'', CmpValue = Some ''1'', Result = None, Swapped = False\<rparr>"

definition delete_ghosts :: Operation where
  "delete_ghosts = \<lparr>Cmd = DeleteTable, Bucket = Some ''ghosts'', Key = None, Value = None,
                     CmpValue = None, Result = None, Swapped = False\<rparr>"

definition cmp_or_rollback :: Operation where
  "cmp_or_rollback = \<lparr>Cmd = CmpOrRollback, Bucket = Some ''users'', Key = Some ''alice'',
                       Value = Some ''3'', CmpValue = Some ''1'', Result = None,
                       Swapped = False\<rparr>"

section \<open>Properties\<close>

subsection \<open>How the engine reads the adapter's statements\<close>

lemma ident_no_backtick: "bt \<notin> set s \<Longrightarrow> ident s = None"
  by (induction s rule: ident.induct) (auto simp: push_def)

lemma ident_append:
  "bt \<notin> set post \<Longrightarrow>
     ident (name @ bt # post) =
       (case ident (name @ [bt]) of None \<Rightarrow> None | Some (n, r) \<Rightarrow> Some (n, r @ post))"
proof (induction name rule: ident.induct)
  case 1
  then show ?case by (cases post) auto
next
  case (2 c)
  then show ?case
    by (cases post) (auto simp: push_def ident_no_backtick)
next
  case (3 c d ds)
  then show ?case
    by (auto simp: push_def split: option.splits)
qed

lemma quoted_eq:
  assumes "strip_prefix pre sql = Some (name @ bt # post)" and "bt \<notin> set post"
  shows "quoted pre post sql = table_name name"
proof (cases post)
  case Nil
  with assms show ?thesis
    by (auto simp: quoted_def table_name_def split: option.splits)
next
  case (Cons p ps)
  have "ident (name @ bt # post) =
          (case ident (name @ [bt]) of None \<Rightarrow> None | Some (n, r) \<Rightarrow> Some (n, r @ post))"
    using assms(2) by (rule ident_append)
  with assms(1) show ?thesis
    by (auto simp: quoted_def table_name_def split: option.splits)
qed

lemma quoted_None: "strip_prefix pre sql = None \<Longrightarrow> quoted pre post sql = None"
  by (simp add: quoted_def)

text \<open>
  Each statement of the adapter is read as the statement it is meant to be, on the table that
  the bucket's name denotes, and as none of the six when the name denotes no table.
\<close>

lemma parse_createTableQry:
  "parse (createTableQry b) = map_option CreateTableQ (table_name (str b))"
proof -
  have "strip_prefix ''CREATE TABLE IF NOT EXISTS `'' (createTableQry b)
          = Some (str b @ bt # ''(nkey BLOB(255) PRIMARY KEY, nvalue BLOB);'')"
    by (simp add: createTableQry_def bt_def)
  then have 1: "quoted ''CREATE TABLE IF NOT EXISTS `''
             ''(nkey BLOB(255) PRIMARY KEY, nvalue BLOB);'' (createTableQry b)
           = table_name (str b)"
    by (rule quoted_eq) (simp add: bt_def)
  have 2: "quoted ''DROP TABLE `''
             [] (createTableQry b) = None"
    by (rule quoted_None) (simp add: createTableQry_def)
  have 3: "quoted ''SELECT nvalue FROM `''
             '' WHERE nkey = ?'' (createTableQry b) = None"
    by (rule quoted_None) (simp add: createTableQry_def)
  have 4: "quoted ''DELETE FROM `''
             '' WHERE nkey = ?'' (createTableQry b) = None"
    by (rule quoted_None) (simp add: createTableQry_def)
  have 5: "quoted ''INSERT INTO `''
             ''(nkey, nvalue) VALUES(?,?) ON CONFLICT(nkey) DO UPDATE SET nvalue = ?'' (createTableQry b) = None"
    by (rule quoted_None) (simp add: createTableQry_def)
  have 6: "quoted ''SELECT * FROM `''
             [] (createTableQry b) = None"
    by (rule quoted_None) (simp add: createTableQry_def)
  show ?thesis
    unfolding parse_def 1 2 3 4 5 6 by (simp split: option.splits)
qed

lemma parse_deleteTableQry:
  "parse (deleteTableQry b) = map_option DropTableQ (table_name (str b))"
proof -
  have 1: "quoted ''CREATE TABLE IF NOT EXISTS `''
             ''(nkey BLOB(255) PRIMARY KEY, nvalue BLOB);'' (deleteTableQry b) = None"
    by (rule quoted_None) (simp add: deleteTableQry_def)
  have "strip_prefix ''DROP TABLE `'' (deleteTableQry b)
          = Some (str b @ bt # [])"
    by (simp add: deleteTableQry_def bt_def)
  then have 2: "quoted ''DROP TABLE `''
             [] (deleteTableQry b)
           = table_name (str b)"
    by (rule quoted_eq) (simp add: bt_def)
  have 3: "quoted ''SELECT nvalue FROM `''
             '' WHERE nkey = ?'' (deleteTableQry b) = None"
    by (rule quoted_None) (simp add: deleteTableQry_def)
  have 4: "quoted ''DELETE FROM `''
             '' WHERE nkey = ?'' (deleteTableQry b) = None"
    by (rule quoted_None) (simp add: deleteTableQry_def)
  have 5: "quoted ''INSERT INTO `''
             ''(nkey, nvalue) VALUES(?,?) ON CONFLICT(nkey) DO UPDATE SET nvalue = ?'' (deleteTableQry b) = None"
    by (rule quoted_None) (simp add: deleteTableQry_def)
  have 6: "quoted ''SELECT * FROM `''
             [] (deleteTableQry b) = None"
    by (rule quoted_None) (simp add: deleteTableQry_def)
  show ?thesis
    unfolding parse_def 1 2 3 4 5 6 by (simp split: option.splits)
qed

lemma parse_getQry:
  "parse (getQry b) = map_option SelectValueQ (table_name (str b))"
proof -
  have 1: "quoted ''CREATE TABLE IF NOT EXISTS `''
             ''(nkey BLOB(255) PRIMARY KEY, nvalue BLOB);'' (getQry b) = None"
    by (rule quoted_None) (simp add: getQry_def)
  have 2: "quoted ''DROP TABLE `''
             [] (getQry b) = None"
    by (rule quoted_None) (simp add: getQry_def)
  have "strip_prefix ''SELECT nvalue FROM `'' (getQry b)
          = Some (str b @ bt # '' WHERE nkey = ?'')"
    by (simp add: getQry_def bt_def)
  then have 3: "quoted ''SELECT nvalue FROM `''
             '' WHERE nkey = ?'' (getQry b)
           = table_name (str b)"
    by (rule quoted_eq) (simp add: bt_def)
  have 4: "quoted ''DELETE FROM `''
             '' WHERE nkey = ?'' (getQry b) = None"
    by (rule quoted_None) (simp add: getQry_def)
  have 5: "quoted ''INSERT INTO `''
             ''(nkey, nvalue) VALUES(?,?) ON CONFLICT(nkey) DO UPDATE SET nvalue = ?'' (getQry b) = None"
    by (rule quoted_None) (simp add: getQry_def)
  have 6: "quoted ''SELECT * FROM `''
             [] (getQry b) = None"
    by (rule quoted_None) (simp add: getQry_def)
  show ?thesis
    unfolding parse_def 1 2 3 4 5 6 by (simp split: option.splits)
qed

lemma parse_delQry:
  "parse (delQry b) = map_option DeleteRowQ (table_name (str b))"
proof -
  have 1: "quoted ''CREATE TABLE IF NOT EXISTS `''
             ''(nkey BLOB(255) PRIMARY KEY, nvalue BLOB);'' (delQry b) = None"
    by (rule quoted_None) (simp add: delQry_def)
  have 2: "quoted ''DROP TABLE `''
             [] (delQry b) = None"
    by (rule quoted_None) (simp add: delQry_def)
  have 3: "quoted ''SELECT nvalue FROM `''
             '' WHERE nkey = ?'' (delQry b) = None"
    by (rule quoted_None) (simp add: delQry_def)
  have "strip_prefix ''DELETE FROM `'' (delQry b)
          = Some (str b @ bt # '' WHERE nkey = ?'')"
    by (simp add: delQry_def bt_def)
  then have 4: "quoted ''DELETE FROM `''
             '' WHERE nkey = ?'' (delQry b)
           = table_name (str b)"
    by (rule quoted_eq) (simp add: bt_def)
  have 5: "quoted ''INSERT INTO `''
             ''(nkey, nvalue) VALUES(?,?) ON CONFLICT(nkey) DO UPDATE SET nvalue = ?'' (delQry b) = None"
    by (rule quoted_None) (simp add: delQry_def)
  have 6: "quoted ''SELECT * FROM `''
             [] (delQry b) = None"
    by (rule quoted_None) (simp add: delQry_def)
  show ?thesis
    unfolding parse_def 1 2 3 4 5 6 by (simp split: option.splits)
qed

lemma parse_insertUpdateQry:
  "parse (insertUpdateQry b) = map_option InsertUpdateQ (table_name (str b))"
proof -
  have 1: "quoted ''CREATE TABLE IF NOT EXISTS `''
             ''(nkey BLOB(255) PRIMARY KEY, nvalue BLOB);'' (insertUpdateQry b) = None"
    by (rule quoted_None) (simp add: insertUpdateQry_def)
  have 2: "quoted ''DROP TABLE `''
             [] (insertUpdateQry b) = None"
    by (rule quoted_None) (simp add: insertUpdateQry_def)
  have 3: "quoted ''SELECT nvalue FROM `''
             '' WHERE nkey = ?'' (insertUpdateQry b) = None"
    by (rule quoted_None) (simp add: insertUpdateQry_def)
  have 4: "quoted ''DELETE FROM `''
             '' WHERE nkey = ?'' (insertUpdateQry b) = None"
    by (rule quoted_None) (simp add: insertUpdateQry_def)
  have "strip_prefix ''INSERT INTO `'' (insertUpdateQry b)
          = Some (str b @ bt # ''(nkey, nvalue) VALUES(?,?) ON CONFLICT(nkey) DO UPDATE SET nvalue = ?'')"
    by (simp add: insertUpdateQry_def bt_def)
  then have 5: "quoted ''INSERT INTO `''
             ''(nkey, nvalue) VALUES(?,?) ON CONFLICT(nkey) DO UPDATE SET nvalue = ?'' (insertUpdateQry b)
           = table_name (str b)"
    by (rule quoted_eq) (simp add: bt_def)
  have 6: "quoted ''SELECT * FROM `''
             [] (insertUpdateQry b) = None"
    by (rule quoted_None) (simp add: insertUpdateQry_def)
  show ?thesis
    unfolding parse_def 1 2 3 4 5 6 by (simp split: option.splits)
qed

lemma parse_listQry:
  "parse (listQry b) = map_option SelectAllQ (table_name (str b))"
proof -
  have 1: "quoted ''CREATE TABLE IF NOT EXISTS `''
             ''(nkey BLOB(255) PRIMARY KEY, nvalue BLOB);'' (listQry b) = None"
    by (rule quoted_None) (simp add: listQry_def)
  have 2: "quoted ''DROP TABLE `''
             [] (listQry b) = None"
    by (rule quoted_None) (simp add: listQry_def)
  have 3: "quoted ''SELECT nvalue FROM `''
             '' WHERE nkey = ?'' (listQry b) = None"
    by (rule quoted_None) (simp add: listQry_def)
  have 4: "quoted ''DELETE FROM `''
             '' WHERE nkey = ?'' (listQry b) = None"
    by (rule quoted_None) (simp add: listQry_def)
  have 5: "quoted ''INSERT INTO `''
             ''(nkey, nvalue) VALUES(?,?) ON CONFLICT(nkey) DO UPDATE SET nvalue = ?'' (listQry b) = None"
    by (rule quoted_None) (simp add: listQry_def)
  have "strip_prefix ''SELECT * FROM `'' (listQry b)
          = Some (str b @ bt # [])"
    by (simp add: listQry_def bt_def)
  then have 6: "quoted ''SELECT * FROM `''
             [] (listQry b)
           = table_name (str b)"
    by (rule quoted_eq) (simp add: bt_def)
  show ?thesis
    unfolding parse_def 1 2 3 4 5 6 by (simp split: option.splits)
qed

lemma parse_getQryForUpdate:
  "parse (getQryForUpdate b) = map_option SelectValueQ (table_name (str b))"
  using parse_getQry [of b] by (simp add: getQry_def getQryForUpdate_def)

lemmas parse_qry = parse_createTableQry parse_deleteTableQry parse_getQry parse_delQry
  parse_insertUpdateQry parse_listQry parse_getQryForUpdate

lemma getQryForUpdate_getQry: "getQryForUpdate bucket = getQry bucket"
  by (simp add: getQryForUpdate_def getQry_def)

text \<open>Concrete names of the examples, and the row that an upsert leaves.\<close>

lemma table_name_users: "table_name ''users'' = Some ''users''"
  by (simp add: table_name_def bt_def NUL_def push_def reserved_def key_of_def lower_def
        HasPrefix_def)

lemma key_of_users: "key_of ''users'' = ''users''"
  by (simp add: key_of_def lower_def)

lemma table_name_ghosts: "table_name ''ghosts'' = Some ''ghosts''"
  by (simp add: table_name_def bt_def NUL_def push_def reserved_def key_of_def lower_def
        HasPrefix_def)

lemma key_of_ghosts: "key_of ''ghosts'' = ''ghosts''"
  by (simp add: key_of_def lower_def)

lemmas names = table_name_users key_of_users table_name_ghosts key_of_ghosts


lemma lookup_insert_update:
  "key \<noteq> None \<Longrightarrow> lookup_row (insert_update t key v v) key = Some v"
  by (auto simp: lookup_row_def insert_update_def update_conv' map_add_def split: option.splits)

lemmas engine_defs = db_Begin_def db_Exec_def db_Query_def tx_Exec_def tx_Query_def tx_Commit_def
  tx_Rollback_def engine_exec_def engine_query_def parse_qry Scan_bytes_def Scan_string_def
  convert_string_def

subsection \<open>Compare and swap\<close>

text \<open>
  C2. On a bucket whose name denotes an existing table, when the key's current value (nil for
  a missing row) does not equal the expected old value and the engine begins and rolls back
  the transaction and answers the query, \<open>CmpAndSwap\<close> returns the current value,
  \<open>swapped = false\<close> and a nil error; the committed tables are what they were, and the
  transaction is rolled back.
\<close>

theorem CmpAndSwap_mismatch:
  assumes "table_name (str bucket) = Some n" and "tables db (key_of n) = Some t"
    and "begin_fault f = None" and "rollback_fault f = None"
    and "stmt_fault f (getQryForUpdate bucket) [key] = None"
    and "\<not> bytes_Equal (case lookup_row t key of None \<Rightarrow> None | Some v \<Rightarrow> v) oldValue"
  shows "fst (DB_CmpAndSwap f db bucket key oldValue newValue)
           = ((case lookup_row t key of None \<Rightarrow> None | Some v \<Rightarrow> v), False, None)
         \<and> tables (snd (DB_CmpAndSwap f db bucket key oldValue newValue)) = tables db
         \<and> tx_status (snd (DB_CmpAndSwap f db bucket key oldValue newValue)) = RolledBack"
  using assms
  by (auto simp: DB_CmpAndSwap_def cmpAndSwap_def engine_defs split: option.splits)

theorem CmpAndSwap_mismatch_witness:
  "fst (DB_CmpAndSwap no_faults users_db (Some ''users'') (Some ''alice'') (Some ''1'') (Some ''3''))
     = (Some ''2'', False, None)
   \<and> tables (snd (DB_CmpAndSwap no_faults users_db (Some ''users'') (Some ''alice'') (Some ''1'')
                    (Some ''3'')))
       = tables users_db
   \<and> tx_status (snd (DB_CmpAndSwap no_faults users_db (Some ''users'') (Some ''alice'')
                       (Some ''1'') (Some ''3'')))
       = RolledBack"
  using CmpAndSwap_mismatch [of "Some ''users''" "''users''" users_db
          "[(Some ''alice'', Some ''2'')]" no_faults "Some ''alice''" "Some ''1''" "Some ''3''"]
  by (simp add: users_db_def no_faults_def names str_def lookup_row_def bytes_Equal_def)

text \<open>
  C3, as stated: whenever the current value equals \<open>V\<close>, \<open>CmpAndSwap(bucket, key, V, W)\<close>
  returns \<open>(W, true, nil)\<close> and a subsequent \<open>Get\<close> returns \<open>W\<close>. It fails for a nil
  \<open>W\<close>: the swap happens and stores NULL, which \<open>Get\<close> cannot scan into its string.
\<close>

theorem CmpAndSwap_nil_counterexample:
  "fst (DB_CmpAndSwap no_faults users_db (Some ''users'') (Some ''alice'') (Some ''2'') None)
     = (None, True, None)
   \<and> DB_Get no_faults
        (snd (DB_CmpAndSwap no_faults users_db (Some ''users'') (Some ''alice'') (Some ''2'') None))
        (Some ''users'') (Some ''alice'')
     = Inl (Wrap (Sql (null_to_string ''0'' ''nvalue'')) ''failed to get users/alice'')"
  by (simp add: DB_CmpAndSwap_def cmpAndSwap_def DB_Get_def engine_defs users_db_def
        no_faults_def names str_def lookup_row_def bytes_Equal_def insert_update_def
        null_to_string_def)

text \<open>
  C3, amended. On a bucket whose name denotes an existing table, when the key's current value
  (nil for a missing row) equals the expected old value \<open>V\<close> and the engine begins and
  commits the transaction and runs the statements, \<open>CmpAndSwap(bucket, key, V, W)\<close> returns
  \<open>(W, true, nil)\<close> and the committed table is the old one with \<open>W\<close> upserted for the key;
  and when neither the key nor \<open>W\<close> is nil, \<open>Get\<close> on the database after the call returns
  \<open>W\<close>.
\<close>

theorem CmpAndSwap_match:
  assumes "table_name (str bucket) = Some n" and "tables db (key_of n) = Some t"
    and "bytes_Equal (case lookup_row t key of None \<Rightarrow> None | Some v \<Rightarrow> v) V"
    and "begin_fault f = None" and "commit_fault f = None"
    and "stmt_fault f (getQry bucket) [key] = None"
    and "stmt_fault f (insertUpdateQry bucket) [key, W, W] = None"
  shows "fst (DB_CmpAndSwap f db bucket key V W) = (W, True, None)
         \<and> tables (snd (DB_CmpAndSwap f db bucket key V W)) (key_of n)
             = Some (insert_update t key W W)
         \<and> (key \<noteq> None \<and> W \<noteq> None \<longrightarrow>
              DB_Get f (snd (DB_CmpAndSwap f db bucket key V W)) bucket key = Inr W)"
  using assms
  by (auto simp: DB_CmpAndSwap_def cmpAndSwap_def DB_Get_def engine_defs getQryForUpdate_getQry
        lookup_insert_update split: option.splits)

theorem CmpAndSwap_match_witness:
  "fst (DB_CmpAndSwap no_faults users_db (Some ''users'') (Some ''alice'') (Some ''2'') (Some ''3''))
     = (Some ''3'', True, None)
   \<and> tables (snd (DB_CmpAndSwap no_faults users_db (Some ''users'') (Some ''alice'') (Some ''2'')
                    (Some ''3''))) ''users''
       = Some [(Some ''alice'', Some ''3'')]
   \<and> DB_Get no_faults
        (snd (DB_CmpAndSwap no_faults users_db (Some ''users'') (Some ''alice'') (Some ''2'')
                (Some ''3'')))
        (Some ''users'') (Some ''alice'') = Inr (Some ''3'')"
  using CmpAndSwap_match [of "Some ''users''" "''users''" users_db
          "[(Some ''alice'', Some ''2'')]" "Some ''alice''" "Some ''2''" no_faults "Some ''3''"]
  by (simp add: users_db_def no_faults_def names str_def lookup_row_def bytes_Equal_def
        insert_update_def)

text \<open>
  C10. On a bucket whose name denotes an existing table in which the key has no row, and with
  an engine that reports no fault: \<open>CmpAndSwap\<close> with a nil or empty old value inserts the
  new value and returns \<open>(newValue, true, nil)\<close>; with a non-empty old value it returns
  \<open>(nil, false, nil)\<close> and the committed tables are what they were.
\<close>

theorem CmpAndSwap_absent_key:
  assumes "table_name (str bucket) = Some n" and "tables db (key_of n) = Some t"
    and "lookup_row t key = None"
    and "begin_fault f = None" and "commit_fault f = None" and "rollback_fault f = None"
    and "stmt_fault f (getQryForUpdate bucket) [key] = None"
    and "stmt_fault f (insertUpdateQry bucket) [key, newValue, newValue] = None"
  shows "(str oldValue = [] \<longrightarrow>
            fst (DB_CmpAndSwap f db bucket key oldValue newValue) = (newValue, True, None)
          \<and> tables (snd (DB_CmpAndSwap f db bucket key oldValue newValue)) (key_of n)
               = Some (t @ [(key, newValue)]))
       \<and> (str oldValue \<noteq> [] \<longrightarrow>
            fst (DB_CmpAndSwap f db bucket key oldValue newValue) = (None, False, None)
          \<and> tables (snd (DB_CmpAndSwap f db bucket key oldValue newValue)) = tables db)"
  using assms
  by (auto simp: DB_CmpAndSwap_def cmpAndSwap_def engine_defs bytes_Equal_def str_def
        insert_update_def split: option.splits)

theorem CmpAndSwap_absent_key_witness:
  "fst (DB_CmpAndSwap no_faults empty_users_db (Some ''users'') (Some ''alice'') None (Some ''1''))
     = (Some ''1'', True, None)
   \<and> tables (snd (DB_CmpAndSwap no_faults empty_users_db (Some ''users'') (Some ''alice'') None
                    (Some ''1''))) ''users''
        = Some [(Some ''alice'', Some ''1'')]
   \<and> fst (DB_CmpAndSwap no_faults empty_users_db (Some ''users'') (Some ''alice'') (Some [])
            (Some ''1''))
        = (Some ''1'', True, None)
   \<and> fst (DB_CmpAndSwap no_faults empty_users_db (Some ''users'') (Some ''alice'') (Some ''0'')
            (Some ''1''))
        = (None, False, None)
   \<and> tables (snd (DB_CmpAndSwap no_faults empty_users_db (Some ''users'') (Some ''alice'')
                    (Some ''0'') (Some ''1'')))
        = tables empty_users_db"
  using CmpAndSwap_absent_key [of "Some ''users''" "''users''" empty_users_db "[]" "Some ''alice''"
          no_faults "Some ''1''" None]
    CmpAndSwap_absent_key [of "Some ''users''" "''users''" empty_users_db "[]" "Some ''alice''"
          no_faults "Some ''1''" "Some []"]
    CmpAndSwap_absent_key [of "Some ''users''" "''users''" empty_users_db "[]" "Some ''alice''"
          no_faults "Some ''1''" "Some ''0''"]
  by (simp add: empty_users_db_def no_faults_def names str_def lookup_row_def)

subsection \<open>Single operations\<close>

text \<open>
  C7, as stated: for all (bucket, key, value), \<open>Set\<close> then \<open>Get\<close> returns exactly the
  value. It fails for a nil value, which \<open>Set\<close> stores as NULL and \<open>Get\<close> cannot scan
  into its string, and for a nil key, whose row no \<open>Get\<close> finds: both times \<open>Set\<close>
  returns nil and \<open>Get\<close> returns an error.
\<close>

theorem Set_then_Get_nil_counterexample:
  "fst (DB_Set no_faults users_db (Some ''users'') (Some ''alice'') None) = None
   \<and> DB_Get no_faults (snd (DB_Set no_faults users_db (Some ''users'') (Some ''alice'') None))
        (Some ''users'') (Some ''alice'')
      = Inl (Wrap (Sql (null_to_string ''0'' ''nvalue'')) ''failed to get users/alice'')
   \<and> fst (DB_Set no_faults users_db (Some ''users'') None (Some ''1'')) = None
   \<and> DB_Get no_faults (snd (DB_Set no_faults users_db (Some ''users'') None (Some ''1'')))
        (Some ''users'') None
      = Inl (Wrap ErrNotFound ''users/ not found'')"
  by (simp add: DB_Set_def DB_Get_def engine_defs users_db_def no_faults_def names str_def
        lookup_row_def insert_update_def null_to_string_def)

text \<open>
  C7, amended. For every bucket whose name denotes an existing table and every key and value
  that are not nil, with an engine that runs the two statements, \<open>Set(bucket, key, value)\<close>
  returns nil and \<open>Get(bucket, key)\<close> on the database after it returns exactly \<open>value\<close>,
  whatever the table held for the key before.
\<close>

theorem Set_then_Get:
  assumes "table_name (str bucket) = Some n" and "tables db (key_of n) = Some t"
    and "key \<noteq> None" and "val \<noteq> None"
    and "stmt_fault f (insertUpdateQry bucket) [key, val, val] = None"
    and "stmt_fault f (getQry bucket) [key] = None"
  shows "fst (DB_Set f db bucket key val) = None
         \<and> DB_Get f (snd (DB_Set f db bucket key val)) bucket key = Inr val"
  using assms
  by (auto simp: DB_Set_def DB_Get_def engine_defs lookup_insert_update split: option.splits)

theorem Set_then_Get_witness:
  "fst (DB_Set no_faults users_db (Some ''users'') (Some ''alice'') (Some ''7'')) = None
   \<and> DB_Get no_faults (snd (DB_Set no_faults users_db (Some ''users'') (Some ''alice'') (Some ''7'')))
        (Some ''users'') (Some ''alice'') = Inr (Some ''7'')
   \<and> DB_Get no_faults (snd (DB_Set no_faults users_db (Some ''users'') (Some ''bob'') (Some [])))
        (Some ''users'') (Some ''bob'') = Inr (Some [])"
  using Set_then_Get [of "Some ''users''" "''users''" users_db "[(Some ''alice'', Some ''2'')]"
          "Some ''alice''" "Some ''7''" no_faults]
    Set_then_Get [of "Some ''users''" "''users''" users_db "[(Some ''alice'', Some ''2'')]"
          "Some ''bob''" "Some []" no_faults]
  by (simp add: users_db_def no_faults_def names str_def)

text \<open>
  C8, as stated: for every bucket and key such that the key is absent from the bucket, \<open>Get\<close>
  fails with a not-found error. It fails for a bucket that has no table: \<open>Get\<close> returns the
  engine's error as a failure to get, which is not a not-found error.
\<close>

theorem Get_missing_bucket_counterexample:
  "DB_Get no_faults users_db (Some ''ghosts'') (Some ''alice'')
     = Inl (Wrap (Sql (DriverError ''no such table: ghosts'')) ''failed to get ghosts/alice'')
   \<and> \<not> IsErrNotFound
         (Wrap (Sql (DriverError ''no such table: ghosts'')) ''failed to get ghosts/alice'')"
  by (simp add: DB_Get_def engine_defs users_db_def no_faults_def names str_def
        no_such_table_def IsErrNotFound_def)

text \<open>
  C8, amended. For every bucket whose name denotes an existing table and every key that has
  no row in it, with an engine that answers the query, \<open>Get(bucket, key)\<close> fails, and its
  error satisfies the not-found predicate.
\<close>

theorem Get_absent_key:
  assumes "table_name (str bucket) = Some n" and "tables db (key_of n) = Some t"
    and "lookup_row t key = None"
    and "stmt_fault f (getQry bucket) [key] = None"
  shows "DB_Get f db bucket key
           = Inl (Wrap ErrNotFound (str bucket @ ''/'' @ str key @ '' not found''))
         \<and> IsErrNotFound (Wrap ErrNotFound (str bucket @ ''/'' @ str key @ '' not found''))"
  using assms
  by (auto simp: DB_Get_def engine_defs IsErrNotFound_def)

theorem Get_absent_key_witness:
  "DB_Get no_faults users_db (Some ''users'') (Some ''bob'')
     = Inl (Wrap ErrNotFound ''users/bob not found'')
   \<and> IsErrNotFound (Wrap ErrNotFound ''users/bob not found'')"
  using Get_absent_key [of "Some ''users''" "''users''" users_db "[(Some ''alice'', Some ''2'')]"
          "Some ''bob''" no_faults]
  by (simp add: users_db_def no_faults_def names str_def lookup_row_def)




subsection \<open>Transactions\<close>

text \<open>The loop of \<open>Update\<close> works on the transaction's tables, never on the committed ones.\<close>

lemma tx_Exec_tables: "tables (snd (tx_Exec f db sql args)) = tables db"
  by (simp add: tx_Exec_def split: option.splits sum.splits)

lemma tx_Rollback_tables: "tables (snd (tx_Rollback f db)) = tables db"
  by (simp add: tx_Rollback_def split: option.splits)

lemma rollback_tables: "tables (snd (rollback f db err)) = tables db"
  by (simp add: rollback_def tx_Rollback_def split: option.splits)

lemma return_rollback_tables: "tables (snd (snd (return_rollback f db q err))) = tables db"
  by (simp add: return_rollback_def case_prod_beta rollback_tables)

lemma cmpAndSwap_tables:
  "tables (snd (cmpAndSwap f db bucket key oldValue newValue)) = tables db"
  by (simp add: cmpAndSwap_def Let_def case_prod_beta tx_Exec_tables
        split: option.splits sum.splits)

lemma update_op_tables: "tables (snd (snd (update_op f db q))) = tables db"
  by (cases "Cmd q")
    (simp_all add: update_op_def Let_def case_prod_beta tx_Exec_tables return_rollback_tables
       cmpAndSwap_tables split: option.splits sum.splits)

lemma update_ops_tables: "tables (snd (snd (update_ops f db qs))) = tables db"
proof (induction qs arbitrary: db)
  case Nil
  then show ?case by simp
next
  case (Cons q qs)
  show ?case
    using Cons.IH [of "snd (snd (update_op f db q))"] update_op_tables [of f db q]
    by (simp add: case_prod_beta split: option.splits)
qed

text \<open>
  So whenever \<open>Update\<close> returns an error, the committed tables are what they were before the
  call: no other reader sees a partial effect.
\<close>

lemma tx_Commit_error_tables:
  "fst (tx_Commit f db) \<noteq> None \<Longrightarrow> tables (snd (tx_Commit f db)) = tables db"
  by (simp add: tx_Commit_def split: if_splits option.splits)

lemma Update_error_keeps_tables:
  assumes "fst (DB_Update f db tx) \<noteq> None"
  shows "tables (snd (snd (DB_Update f db tx))) = tables db"
proof (cases "begin_fault f")
  case (Some m)
  then show ?thesis by (simp add: DB_Update_def db_Begin_def)
next
  case None
  define db0 where "db0 = db\<lparr>tx_tables := tables db, tx_status := Active\<rparr>"
  define db1 where "db1 = snd (snd (update_ops f db0 (Operations tx)))"
  have b: "db_Begin f db = (None, db0)"
    using None by (simp add: db_Begin_def db0_def)
  have t1: "tables db1 = tables db"
    using update_ops_tables [of f db0 "Operations tx"] by (simp add: db1_def db0_def)
  show ?thesis
  proof (cases "fst (update_ops f db0 (Operations tx))")
    case (Some err)
    then show ?thesis
      using t1 by (simp add: DB_Update_def b case_prod_beta db1_def)
  next
    case n: None
    show ?thesis
    proof (cases "fst (tx_Commit f db1)")
      case None
      then show ?thesis
        using assms n by (simp add: DB_Update_def b case_prod_beta db1_def errors_WithStack_def)
    next
      case (Some ce)
      then have "tables (snd (tx_Commit f db1)) = tables db"
        using tx_Commit_error_tables [of f db1] t1 by simp
      then show ?thesis
        using n Some
        by (simp add: DB_Update_def b case_prod_beta db1_def [symmetric] errors_WithStack_def
              rollback_tables)
    qed
  qed
qed

text \<open>
  The branches of the loop that return through \<open>rollback\<close> (\<open>CreateTable\<close>, \<open>Get\<close>,
  \<open>Set\<close>, \<open>Delete\<close>, \<open>CmpAndSwap\<close>) end the transaction: when the engine can roll back, a
  failing operation of these kinds leaves the transaction rolled back.
\<close>

lemma tx_Exec_status: "tx_status (snd (tx_Exec f db sql args)) = tx_status db"
  by (simp add: tx_Exec_def split: option.splits sum.splits)

lemma return_rollback_status:
  "tx_status db = Active \<Longrightarrow> rollback_fault f = None \<Longrightarrow>
     tx_status (snd (snd (return_rollback f db q err))) = RolledBack"
  by (simp add: return_rollback_def rollback_def tx_Rollback_def)

lemma cmpAndSwap_status:
  "tx_status (snd (cmpAndSwap f db bucket key oldValue newValue)) = tx_status db"
  by (simp add: cmpAndSwap_def Let_def case_prod_beta tx_Exec_status
        split: option.splits sum.splits)

lemma update_op_failure_rolls_back:
  assumes "fst (update_op f db q) \<noteq> None"
    and "tx_status db = Active" and "rollback_fault f = None"
    and "Cmd q \<in> {CreateTable, Get, Set, Delete, CmpAndSwap}"
  shows "tx_status (snd (snd (update_op f db q))) = RolledBack"
  using assms
  by (cases "Cmd q")
    (simp_all add: update_op_def Let_def case_prod_beta tx_Exec_status cmpAndSwap_status
       return_rollback_status split: option.splits sum.splits)

text \<open>As long as the loop goes on, the transaction stays as active as it was.\<close>

lemma update_op_success_status:
  "fst (update_op f db q) = None \<Longrightarrow> tx_status (snd (snd (update_op f db q))) = tx_status db"
  by (cases "Cmd q")
    (simp_all add: update_op_def Let_def case_prod_beta tx_Exec_status cmpAndSwap_status
       return_rollback_def split: option.splits sum.splits if_splits)

lemma update_ops_success_status:
  "fst (update_ops f db qs) = None \<Longrightarrow> tx_status (snd (snd (update_ops f db qs))) = tx_status db"
proof (induction qs arbitrary: db)
  case Nil
  then show ?case by simp
next
  case (Cons q qs)
  from Cons.prems have a: "fst (update_op f db q) = None"
    by (simp add: case_prod_beta split: option.splits)
  with Cons.prems have b: "fst (update_ops f (snd (snd (update_op f db q))) qs) = None"
    by (simp add: case_prod_beta)
  show ?case
    using a Cons.IH [OF b] update_op_success_status [OF a]
    by (simp add: case_prod_beta)
qed

lemmas update_defs = DB_Update_def update_op_def cmpAndSwap_def rollback_def return_rollback_def
  errors_WithStack_def no_such_table_def HasPrefix_def

lemma update_ops_append:
  "update_ops f db (xs @ ys) =
     (case update_ops f db xs of
        (Some e, xs', db') \<Rightarrow> (Some e, xs' @ ys, db')
      | (None, xs', db') \<Rightarrow>
          (case update_ops f db' ys of (e, ys', db'') \<Rightarrow> (e, xs' @ ys', db'')))"
  by (induction xs arbitrary: db) (auto split: prod.splits option.splits)

text \<open>
  C1. The claim asks that every failing operation rolls the transaction back before \<open>Update\<close>
  returns. The branches for \<open>DeleteTable\<close> and for the unsupported commands return without
  calling \<open>rollback\<close>: after a \<open>Set\<close> followed by \<open>DeleteTable\<close> on a missing table, or
  by \<open>CmpOrRollback\<close>, \<open>Update\<close> returns the error while the native transaction is still
  active and still holds the uncommitted \<open>Set\<close>.
\<close>

theorem Update_leaves_transaction_open:
  "DB_Update no_faults empty_users_db \<lparr>Operations = [set_alice, delete_ghosts]\<rparr>
     = (Some (WrapFormat ErrNotFound ''no such table: ghosts''),
        \<lparr>Operations = [set_alice, delete_ghosts]\<rparr>,
        \<lparr>tables = [''users'' \<mapsto> []],
         tx_tables = [''users'' \<mapsto> [(Some ''alice'', Some ''1'')]],
         tx_status = Active\<rparr>)
   \<and> DB_Update no_faults empty_users_db \<lparr>Operations = [set_alice, cmp_or_rollback]\<rparr>
     = (Some ErrOpNotSupported,
        \<lparr>Operations = [set_alice, cmp_or_rollback]\<rparr>,
        \<lparr>tables = [''users'' \<mapsto> []],
         tx_tables = [''users'' \<mapsto> [(Some ''alice'', Some ''1'')]],
         tx_status = Active\<rparr>)"
  by (simp add: update_defs engine_defs names str_def lookup_row_def insert_update_def
        empty_users_db_def set_alice_def delete_ghosts_def cmp_or_rollback_def no_faults_def)

text \<open>
  C4. The claim asks that an error returned after a failed rollback carries the operation's
  error as well. \<open>Update\<close> does so: its closure wraps the operation's error with a message
  of its own for the failed rollback. \<open>CmpAndSwap\<close> does not: it wraps the error of the
  rollback and drops the error of the operation. On a bucket without a table, with an engine
  that cannot roll back, the error of \<open>CmpAndSwap\<close> has the rollback's error as its cause and
  nothing of the engine's \<open>no such table\<close>, while the error of \<open>Update\<close> for a \<open>Get\<close> on the
  same bucket keeps it.
\<close>

theorem CmpAndSwap_drops_operation_error:
  "DB_CmpAndSwap rollback_fails users_db (Some ''ghosts'') (Some ''alice'') (Some ''1'') (Some ''2'')
     = ((None, False,
         Some (Wrap (Sql (DriverError ''disk I/O error''))
                 ''failed to execute CmpAndSwap transaction on ghosts/alice and failed to rollback transaction'')),
        users_db\<lparr>tx_tables := tables users_db, tx_status := Indeterminate\<rparr>)
   \<and> fst (DB_Update rollback_fails users_db \<lparr>Operations = [get_ghost]\<rparr>)
     = Some (Wrap (Wrap (Sql (DriverError ''no such table: ghosts'')) ''failed to get ghosts/alice'')
               ''UPDATE failed, unable to rollback transaction'')"
  by (simp add: DB_CmpAndSwap_def update_defs engine_defs names str_def users_db_def
        get_ghost_def rollback_fails_def no_faults_def)

text \<open>
  What \<open>Update\<close>'s closure does in general: the error it returns has the cause of the
  operation's error, and its message tells a failed rollback from a successful one.
\<close>

lemma rollback_keeps_cause: "Cause (fst (rollback f db err)) = Cause err"
  by (simp add: rollback_def tx_Rollback_def split: option.splits)

lemma rollback_reports_failure:
  "fst (rollback f db err) =
     (if fst (tx_Rollback f db) = None then Wrap err ''UPDATE failed''
      else Wrap err ''UPDATE failed, unable to rollback transaction'')"
  by (simp add: rollback_def tx_Rollback_def split: option.splits)

text \<open>
  C6. In \<open>Update\<close>, when the transaction has begun and the operations before it have run: a
  \<open>CmpAndSwap\<close> operation on a bucket whose name denotes an existing table, whose
  comparison value does not equal the current value (nil for a missing row), does not end the
  transaction. \<open>Update\<close> returns the same error (or nil) and leaves the same database as
  it does for the transaction without that operation; the operation's \<open>Result\<close> is the
  current value and its \<open>Swapped\<close> is false; and the operations after it are run next, in
  order, on the transaction as the operations before it left it.
\<close>

theorem Update_CmpAndSwap_mismatch_continues:
  assumes "Operations tx = pre @ q # post"
    and "begin_fault f = None"
    and "update_ops f (snd (db_Begin f db)) pre = (None, pre', db1)"
    and "Cmd q = CmpAndSwap"
    and "table_name (str (Bucket q)) = Some n" and "tx_tables db1 (key_of n) = Some t"
    and "stmt_fault f (getQryForUpdate (Bucket q)) [Key q] = None"
    and "\<not> bytes_Equal (case lookup_row t (Key q) of None \<Rightarrow> None | Some v \<Rightarrow> v) (CmpValue q)"
  shows "fst (DB_Update f db tx) = fst (DB_Update f db (tx\<lparr>Operations := pre @ post\<rparr>))
       \<and> snd (snd (DB_Update f db tx))
           = snd (snd (DB_Update f db (tx\<lparr>Operations := pre @ post\<rparr>)))
       \<and> Operations (fst (snd (DB_Update f db tx)))
           = pre' @ q\<lparr>Result := (case lookup_row t (Key q) of None \<Rightarrow> None | Some v \<Rightarrow> v),
                       Swapped := False\<rparr>
               # fst (snd (update_ops f db1 post))"
proof -
  define q' where
    "q' = q\<lparr>Result := (case lookup_row t (Key q) of None \<Rightarrow> None | Some v \<Rightarrow> v),
           Swapped := False\<rparr>"
  define db0 where "db0 = snd (db_Begin f db)"
  have b: "db_Begin f db = (None, db0)"
    using assms(2) by (simp add: db0_def db_Begin_def)
  have "tx_status db0 = Active"
    using assms(2) by (simp add: db0_def db_Begin_def)
  moreover have "tx_status db1 = tx_status db0"
    using update_ops_success_status [of f db0 pre] assms(3) by (simp add: db0_def)
  ultimately have act: "tx_status db1 = Active" by simp
  have step: "update_op f db1 q = (None, q', db1)"
    using assms(4-8) act
    by (auto simp: update_op_def cmpAndSwap_def engine_defs q'_def split: option.splits)
  obtain e post' db2 where rest: "update_ops f db1 post = (e, post', db2)"
    by (cases "update_ops f db1 post") auto
  have with_q: "update_ops f db0 (pre @ q # post) = (e, pre' @ q' # post', db2)"
    using assms(3) step rest by (simp add: update_ops_append db0_def)
  have without_q: "update_ops f db0 (pre @ post) = (e, pre' @ post', db2)"
    using assms(3) rest by (simp add: update_ops_append db0_def)
  show ?thesis
    using with_q without_q rest b assms(1)
    by (simp add: DB_Update_def q'_def case_prod_beta split: option.splits)
qed

theorem Update_CmpAndSwap_mismatch_continues_witness:
  "DB_Update no_faults users_db \<lparr>Operations = [set_bob, cas_alice, get_bob]\<rparr>
   = (None,
      \<lparr>Operations = [set_bob, cas_alice\<lparr>Result := Some ''2'', Swapped := False\<rparr>,
                     get_bob\<lparr>Result := Some ''8''\<rparr>]\<rparr>,
      \<lparr>tables = [''users'' \<mapsto> [(Some ''alice'', Some ''2''), (Some ''bob'', Some ''8'')]],
       tx_tables = [''users'' \<mapsto> [(Some ''alice'', Some ''2''), (Some ''bob'', Some ''8'')]],
       tx_status = Committed\<rparr>)"
proof -
  let ?tx = "\<lparr>Operations = [set_bob, cas_alice, get_bob]\<rparr>"
  let ?db1 = "\<lparr>tables = [''users'' \<mapsto> [(Some ''alice'', Some ''2'')]],
               tx_tables = [''users'' \<mapsto> [(Some ''alice'', Some ''2''), (Some ''bob'', Some ''8'')]],
               tx_status = Active\<rparr>"
  have pre: "update_ops no_faults (snd (db_Begin no_faults users_db)) [set_bob]
               = (None, [set_bob], ?db1)"
    by (simp add: update_op_def engine_defs names str_def lookup_row_def insert_update_def
          users_db_def set_bob_def no_faults_def)
  have other: "DB_Update no_faults users_db (?tx\<lparr>Operations := [set_bob] @ [get_bob]\<rparr>)
      = (None, \<lparr>Operations = [set_bob, get_bob\<lparr>Result := Some ''8''\<rparr>]\<rparr>,
         \<lparr>tables = [''users'' \<mapsto> [(Some ''alice'', Some ''2''), (Some ''bob'', Some ''8'')]],
          tx_tables = [''users'' \<mapsto> [(Some ''alice'', Some ''2''), (Some ''bob'', Some ''8'')]],
          tx_status = Committed\<rparr>)"
    by (simp add: update_defs engine_defs names str_def lookup_row_def insert_update_def
          users_db_def set_bob_def get_bob_def no_faults_def)
  have post: "fst (snd (update_ops no_faults ?db1 [get_bob])) = [get_bob\<lparr>Result := Some ''8''\<rparr>]"
    by (simp add: update_op_def engine_defs names str_def lookup_row_def get_bob_def
          no_faults_def)
  have inst: "fst (DB_Update no_faults users_db ?tx) = None
      \<and> snd (snd (DB_Update no_faults users_db ?tx))
          = \<lparr>tables = [''users'' \<mapsto> [(Some ''alice'', Some ''2''), (Some ''bob'', Some ''8'')]],
             tx_tables = [''users'' \<mapsto> [(Some ''alice'', Some ''2''), (Some ''bob'', Some ''8'')]],
             tx_status = Committed\<rparr>
      \<and> Operations (fst (snd (DB_Update no_faults users_db ?tx)))
          = [set_bob, cas_alice\<lparr>Result := Some ''2'', Swapped := False\<rparr>,
             get_bob\<lparr>Result := Some ''8''\<rparr>]"
    using Update_CmpAndSwap_mismatch_continues [of ?tx "[set_bob]" cas_alice "[get_bob]" no_faults
            users_db "[set_bob]" ?db1 "''users''"
            "[(Some ''alice'', Some ''2''), (Some ''bob'', Some ''8'')]", OF _ _ pre]
      other post
    by (simp add: cas_alice_def no_faults_def names str_def lookup_row_def bytes_Equal_def)
  then show ?thesis
    by (cases "DB_Update no_faults users_db ?tx") (auto simp: Tx.equality)
qed

subsection \<open>Unsupported operations\<close>

lemma update_op_unsupported:
  "Cmd q = CmpOrRollback \<or> Cmd q = OtherCmd n \<Longrightarrow>
     update_op f db q = (Some ErrOpNotSupported, q, db)"
  by (auto simp: update_op_def)

lemma update_ops_unsupported_fails:
  "q \<in> set qs \<Longrightarrow> Cmd q = CmpOrRollback \<or> Cmd q = OtherCmd n \<Longrightarrow>
     fst (update_ops f db qs) \<noteq> None"
proof (induction qs arbitrary: db)
  case Nil
  then show ?case by simp
next
  case (Cons a qs)
  obtain e a' db' where step: "update_op f db a = (e, a', db')"
    by (cases "update_op f db a") auto
  show ?case
  proof (cases e)
    case (Some err)
    with step show ?thesis by simp
  next
    case None
    with step Cons.prems have "a \<noteq> q"
      by (auto simp: update_op_unsupported)
    with Cons.prems have "q \<in> set qs" by simp
    from Cons.IH [OF this Cons.prems(2), of db'] step None show ?thesis
      by (auto split: prod.splits)
  qed
qed

text \<open>
  C5, as stated: every transaction that contains a \<open>CmpOrRollback\<close> makes \<open>Update\<close> return an
  error that satisfies the unsupported-operation predicate. It fails when an earlier operation
  fails first: a \<open>Get\<close> of a key without a row, followed by \<open>CmpOrRollback\<close>, returns the
  not-found error of the \<open>Get\<close>.
\<close>

theorem Update_unsupported_counterexample:
  "fst (DB_Update no_faults users_db \<lparr>Operations = [get_bob, cmp_or_rollback]\<rparr>)
     = Some (Wrap (Wrap ErrNotFound ''users/bob not found'') ''UPDATE failed'')
   \<and> \<not> IsErrOpNotSupported (Wrap (Wrap ErrNotFound ''users/bob not found'') ''UPDATE failed'')"
  by (simp add: update_defs engine_defs names str_def lookup_row_def users_db_def get_bob_def
        cmp_or_rollback_def no_faults_def IsErrOpNotSupported_def)

text \<open>
  C5, amended: for every transaction that contains an operation whose command is
  \<open>CmpOrRollback\<close> or outside the defined set, \<open>Update\<close> returns an error, never nil; and
  when the native transaction begins and every operation before that one succeeds, the error
  is \<open>ErrOpNotSupported\<close>, which satisfies the unsupported-operation predicate.
\<close>

theorem Update_unsupported:
  assumes "Cmd q = CmpOrRollback \<or> Cmd q = OtherCmd n"
    and "Operations tx = pre @ q # post"
  shows "fst (DB_Update f db tx) \<noteq> None
       \<and> (begin_fault f = None \<and> fst (update_ops f (snd (db_Begin f db)) pre) = None \<longrightarrow>
            fst (DB_Update f db tx) = Some ErrOpNotSupported)
       \<and> IsErrOpNotSupported ErrOpNotSupported"
proof -
  have mem: "q \<in> set (Operations tx)"
    using assms(2) by simp
  have a: "fst (DB_Update f db tx) \<noteq> None"
    using update_ops_unsupported_fails [OF mem assms(1), of f "snd (db_Begin f db)"]
    by (auto simp: DB_Update_def split: prod.splits option.splits)
  have b: "fst (DB_Update f db tx) = Some ErrOpNotSupported"
    if "begin_fault f = None" and "fst (update_ops f (snd (db_Begin f db)) pre) = None"
    using that assms
    by (auto simp: DB_Update_def update_ops_append update_op_unsupported db_Begin_def
          split: prod.splits option.splits)
  show ?thesis
    using a b by (simp add: IsErrOpNotSupported_def)
qed

theorem Update_unsupported_witness:
  "fst (DB_Update no_faults users_db \<lparr>Operations = [set_bob, cmp_or_rollback, get_bob]\<rparr>)
     = Some ErrOpNotSupported
   \<and> IsErrOpNotSupported ErrOpNotSupported"
  using Update_unsupported [of cmp_or_rollback 0
          "\<lparr>Operations = [set_bob, cmp_or_rollback, get_bob]\<rparr>" "[set_bob]" "[get_bob]"
          no_faults users_db]
  by (simp add: users_db_def set_bob_def get_bob_def cmp_or_rollback_def no_faults_def
        update_op_def engine_defs names str_def)

subsection \<open>The test for a missing table\<close>

text \<open>
  \<open>DeleteTable\<close> and \<open>List\<close> make the same test on the engine's text: whatever error the
  engine gives to the two statements, each method answers not-found exactly when the text
  starts with \<open>no such table\<close>.
\<close>

lemma DeleteTable_List_same_detection:
  assumes "stmt_fault f (deleteTableQry bucket) [] = Some m"
    and "stmt_fault f (listQry bucket) [] = Some m"
  shows "(\<exists>e. fst (DB_DeleteTable f db bucket) = Some e \<and> IsErrNotFound e)
           = HasPrefix m ''no such table''"
    and "(\<exists>e. DB_List f db bucket = Inl e \<and> IsErrNotFound e) = HasPrefix m ''no such table''"
  using assms
  by (auto simp: DB_DeleteTable_def DB_List_def db_Exec_def db_Query_def engine_exec_def
       engine_query_def IsErrNotFound_def)

text \<open>
  A bucket's name in another case denotes the same table: \<open>DeleteTable\<close> of \<open>USERS\<close> drops
  the table of the bucket \<open>users\<close>.
\<close>

lemma DeleteTable_case_variant:
  "fst (DB_DeleteTable no_faults users_db (Some ''USERS'')) = None
   \<and> tables (snd (DB_DeleteTable no_faults users_db (Some ''USERS''))) ''users'' = None"
proof -
  have n: "table_name ''USERS'' = Some ''USERS''"
    by (simp add: table_name_def bt_def NUL_def push_def reserved_def key_of_def lower_def
          HasPrefix_def)
  have k: "key_of ''USERS'' = ''users''"
    by (simp add: key_of_def lower_def)
  show ?thesis
    by (simp add: DB_DeleteTable_def engine_defs n k str_def users_db_def no_faults_def)
qed

end
